theory Spec2Isabelle
  imports Main
begin

section \<open>Data model\<close>

text \<open>
  The request pipeline of aiohypixel: the rate-limit gate of \<^verbatim>\<open>ratelimiter.py\<close> and the
  retrying \<^verbatim>\<open>HTTPClient.request\<close> of \<^verbatim>\<open>http.py\<close>.

  A response of the transport is a record of what the code reads from it: the status,
  the headers (keys in lower case, as the code spells them) and the outcomes of the three
  body readers \<^verbatim>\<open>read()\<close>, \<^verbatim>\<open>text()\<close> and \<^verbatim>\<open>json()\<close>.
\<close>

datatype json = JNull | JBool bool | JNum int | JStr string
  | JList "json list" | JDict "(string \<times> json) list"

datatype body_error = JSONDecodeError | ContentTypeError

record response =
  status :: int
  headers :: "string \<rightharpoonup> string"
  raw_body :: string
  text_body :: string
  json_body :: "body_error + json"

text \<open>The exception classes of \<^verbatim>\<open>errors.py\<close> that \<^verbatim>\<open>request\<close> raises.\<close>

datatype error_kind =
  HTTPException | DataMissing | DataInvalid | TooManyRequests | Forbidden | HypixelServerError

text \<open>
  An exception is a value. A library error carries the positional arguments it was
  constructed with (Python's \<^verbatim>\<open>args\<close> tuple); the built-in errors are \<^verbatim>\<open>TypeError\<close>
  (\<^verbatim>\<open>int(None)\<close>, \<^verbatim>\<open>None >= 500\<close>) and \<^verbatim>\<open>ValueError\<close> (\<^verbatim>\<open>int\<close> of a string that is
  no integer literal, an unknown response format).
\<close>

datatype error =
  LibError error_kind "response list"
  | TypeError
  | ValueError
  | BodyError body_error

datatype payload = Bytes string | Text string | Json json | Resp response

text \<open>The keys of the class attribute \<^verbatim>\<open>ERRORS\<close> are integers and the string \<^verbatim>\<open>"_"\<close>.\<close>

datatype key = KInt int | KStr string

definition ERRORS :: "(key \<times> error_kind) list" where
  "ERRORS =
     [(KStr ''_'', HTTPException),
      (KInt 400, DataMissing),
      (KInt 403, Forbidden),
      (KInt 422, DataInvalid),
      (KInt 429, TooManyRequests)]"

text \<open>\<^verbatim>\<open>self.ERRORS.get(status, self.ERRORS["_"])\<close>\<close>

definition ERRORS_get :: "int \<Rightarrow> error_kind" where
  "ERRORS_get st =
     (case map_of ERRORS (KInt st) of
        Some k \<Rightarrow> k
      | None \<Rightarrow> the (map_of ERRORS (KStr ''_'')))"

subsection \<open>Header values and \<^verbatim>\<open>int\<close>\<close>

text \<open>
  What reaches \<^verbatim>\<open>int(...)\<close> is a header string, the default \<^verbatim>\<open>0\<close>, or \<^verbatim>\<open>None\<close>.
  Python's integer-literal parser is not code of this repository: it is the parameter
  \<open>pint\<close> of the model (\<open>None\<close> where \<^verbatim>\<open>int\<close> raises \<^verbatim>\<open>ValueError\<close>).
\<close>

datatype pyval = PNone | PInt int | PStr string

text \<open>\<^verbatim>\<open>headers.get(name, default)\<close>\<close>

definition hget :: "(string \<rightharpoonup> string) \<Rightarrow> string \<Rightarrow> pyval \<Rightarrow> pyval" where
  "hget hs name dflt = (case hs name of Some s \<Rightarrow> PStr s | None \<Rightarrow> dflt)"

fun py_int :: "(string \<Rightarrow> int option) \<Rightarrow> pyval \<Rightarrow> error + int" where
  "py_int pint PNone = Inl TypeError"
| "py_int pint (PInt i) = Inr i"
| "py_int pint (PStr s) = (case pint s of None \<Rightarrow> Inl ValueError | Some i \<Rightarrow> Inr i)"

text \<open>
  A parser for plain decimal literals with an optional sign, on which it agrees with
  Python's \<^verbatim>\<open>int\<close>; it is used to run the model on concrete headers.
\<close>

definition digit_of :: "char \<Rightarrow> nat option" where
  "digit_of c =
     (let n = (of_char c :: nat) in if 48 \<le> n \<and> n \<le> 57 then Some (n - 48) else None)"

fun digits_from :: "nat \<Rightarrow> string \<Rightarrow> nat option" where
  "digits_from acc [] = Some acc"
| "digits_from acc (c # cs) =
     (case digit_of c of None \<Rightarrow> None | Some d \<Rightarrow> digits_from (10 * acc + d) cs)"

definition dec_nat :: "string \<Rightarrow> nat option" where
  "dec_nat s = (if s = [] then None else digits_from 0 s)"

definition dec_int :: "string \<Rightarrow> int option" where
  "dec_int s =
     (case s of
        [] \<Rightarrow> None
      | c # cs \<Rightarrow>
          if c = CHR ''-'' then map_option (\<lambda>n. - int n) (dec_nat cs)
          else if c = CHR ''+'' then map_option int (dec_nat cs)
          else map_option int (dec_nat s))"

section \<open>The rate limiter\<close>

text \<open>
  The state of the event loop as far as the limiter sees it: the clock (seconds), the flag
  of the \<^verbatim>\<open>asyncio.Event\<close> \<^verbatim>\<open>lock\<close> (set means open), and the deadlines of the
  \<^verbatim>\<open>call_later(after, self.lock.set)\<close> callbacks still pending. Two ghost fields record
  what happened: the number of GETs sent and the sequence of calls.
\<close>

datatype event = Acquire | Get | Release int

record world =
  now :: int
  lock :: bool
  timers :: "int list"
  sent :: nat
  trace :: "event list"

text \<open>\<^verbatim>\<open>RateLimiter.__init__\<close>: the event is created and set; nothing is scheduled.\<close>

definition fresh :: world where
  "fresh = \<lparr>now = 0, lock = True, timers = [], sent = 0, trace = []\<rparr>"

text \<open>
  The loop runs up to time \<open>t\<close>: every pending callback whose deadline has come calls
  \<^verbatim>\<open>lock.set()\<close> and is gone. Callbacks run only while the task is suspended.
\<close>

definition run_until :: "int \<Rightarrow> world \<Rightarrow> world" where
  "run_until t w =
     w\<lparr>now := t,
       lock := (lock w \<or> list_ex (\<lambda>d. d \<le> t) (timers w)),
       timers := filter (\<lambda>d. t < d) (timers w)\<rparr>"

text \<open>
  \<^verbatim>\<open>release(after)\<close>: \<^verbatim>\<open>self.lock.clear()\<close>, then
  \<^verbatim>\<open>self.loop.call_later(after, self.lock.set)\<close>. The handle that \<^verbatim>\<open>call_later\<close> returns
  is dropped, so nothing scheduled before is cancelled.
\<close>

definition release :: "int \<Rightarrow> world \<Rightarrow> world" where
  "release after w =
     w\<lparr>lock := False,
       timers := timers w @ [now w + after],
       trace := trace w @ [Release after]\<rparr>"

text \<open>
  \<^verbatim>\<open>await self.lock.wait()\<close>: returns at once when the flag is set, without clearing it;
  otherwise the task sleeps until the first pending callback sets the flag. With the flag
  clear and nothing pending it never returns: \<open>None\<close>.
\<close>

definition acquire :: "world \<Rightarrow> world option" where
  "acquire w =
     (let w1 = w\<lparr>trace := trace w @ [Acquire]\<rparr> in
      if lock w then Some w1
      else if timers w = [] then None
      else Some (run_until (max (now w) (Min (set (timers w)))) w1))"

section \<open>The HTTP client\<close>

text \<open>
  \<^verbatim>\<open>await self.session.get(...)\<close>: the transport is a function from the number of the GET
  to the time the answer takes and the answer; the task is suspended meanwhile. The
  endpoint, the query and the fixed request headers do not influence what follows and are
  left to that function. A transport that raises is outside the model.
\<close>

definition session_get :: "(nat \<Rightarrow> nat \<times> response) \<Rightarrow> world \<Rightarrow> response \<times> world" where
  "session_get server w =
     (case server (sent w) of
        (d, r) \<Rightarrow>
          (r, run_until (now w + int d) (w\<lparr>sent := Suc (sent w), trace := trace w @ [Get]\<rparr>)))"

text \<open>\<^verbatim>\<open>HTTPClient.response_as\<close>\<close>

definition response_as :: "response \<Rightarrow> string \<Rightarrow> error + payload" where
  "response_as r response_format =
     (if response_format = ''raw'' then Inr (Bytes (raw_body r))
      else if response_format = ''text'' then Inr (Text (text_body r))
      else if response_format = ''json'' then
        (case json_body r of Inl e \<Rightarrow> Inl (BodyError e) | Inr j \<Rightarrow> Inr (Json j))
      else if response_format = ''auto'' then
        (case json_body r of
           Inr j \<Rightarrow> Inr (Json j)
         | Inl JSONDecodeError \<Rightarrow> Inr (Text (text_body r))
         | Inl e \<Rightarrow> Inl (BodyError e))
      else if response_format = ''response'' then Inr (Resp r)
      else Inl ValueError)"

text \<open>
  One pass through the body of the \<^verbatim>\<open>for\<close> loop of \<^verbatim>\<open>request\<close> either goes on to the
  next attempt or leaves the function with a value or an exception.
\<close>

datatype flow = Next | Done "error + payload"

definition isr :: "'a + 'b \<Rightarrow> bool" where
  "isr x = (case x of Inl _ \<Rightarrow> False | Inr _ \<Rightarrow> True)"

text \<open>The end of the loop body: \<^verbatim>\<open>if attempt == self.retry_attempts - 1: release(rl_sleep_for); continue\<close>\<close>

definition last_attempt_release :: "int \<Rightarrow> int \<Rightarrow> int \<Rightarrow> world \<Rightarrow> world" where
  "last_attempt_release retry_attempts attempt rl_sleep_for w =
     (if attempt = retry_attempts - 1 then release rl_sleep_for w else w)"

text \<open>
  The three header reads of the loop body:
  \<^verbatim>\<open>int(headers.get("ratelimit-remaining", 0))\<close>,
  \<^verbatim>\<open>int(headers.get("ratelimit-reset", headers.get("retry-after")))\<close> and
  \<^verbatim>\<open>int(headers.get("retry-after"))\<close>.
\<close>

definition rl_remaining_requests :: "(string \<Rightarrow> int option) \<Rightarrow> response \<Rightarrow> error + int" where
  "rl_remaining_requests pint r = py_int pint (hget (headers r) ''ratelimit-remaining'' (PInt 0))"

definition rl_reset_after :: "(string \<Rightarrow> int option) \<Rightarrow> response \<Rightarrow> error + int" where
  "rl_reset_after pint r =
     py_int pint (hget (headers r) ''ratelimit-reset'' (hget (headers r) ''retry-after'' PNone))"

definition rl_unlock_after :: "(string \<Rightarrow> int option) \<Rightarrow> response \<Rightarrow> error + int" where
  "rl_unlock_after pint r = py_int pint (hget (headers r) ''retry-after'' PNone)"

text \<open>
  \<^verbatim>\<open>rl_sleep_for = 0\<close>, then
  \<^verbatim>\<open>if rl_remaining_requests == 0 and status != 429: rl_sleep_for = rl_reset_after\<close>
\<close>

definition rl_sleep_for :: "int \<Rightarrow> int \<Rightarrow> int \<Rightarrow> int" where
  "rl_sleep_for remaining st reset_after = (if remaining = 0 \<and> st \<noteq> 429 then reset_after else 0)"

text \<open>What the loop body does once the response is there (lines 162 to 191).\<close>

definition handle_response ::
  "(string \<Rightarrow> int option) \<Rightarrow> int \<Rightarrow> string \<Rightarrow> int \<Rightarrow> response \<Rightarrow> world \<Rightarrow> flow \<times> world" where
  "handle_response pint retry_attempts response_format attempt r w =
     (case rl_remaining_requests pint r of
        Inl e \<Rightarrow> (Done (Inl e), w)
      | Inr remaining \<Rightarrow>
     (case rl_reset_after pint r of
        Inl e \<Rightarrow> (Done (Inl e), w)
      | Inr reset_after \<Rightarrow>
        if 200 \<le> status r \<and> status r < 300 then
          (Done (response_as r response_format),
           release (rl_sleep_for remaining (status r) reset_after) w)
        else if status r = 429 then
          (case rl_unlock_after pint r of
             Inl e \<Rightarrow> (Done (Inl e), w)
           | Inr unlock_after \<Rightarrow>
               (Next,
                last_attempt_release retry_attempts attempt
                  (rl_sleep_for remaining (status r) reset_after) (release unlock_after w)))
        else if status r \<ge> 500 then
          (Next, last_attempt_release retry_attempts attempt (1 + attempt * 2) w)
        else
          (Done (Inl (LibError (ERRORS_get (status r)) [r])),
           release (rl_sleep_for remaining (status r) reset_after) w)))"

text \<open>The whole loop body: acquire, GET, then the above. The response read is returned too.\<close>

definition iteration ::
  "(string \<Rightarrow> int option) \<Rightarrow> int \<Rightarrow> (nat \<Rightarrow> nat \<times> response) \<Rightarrow> string \<Rightarrow> int \<Rightarrow> world
     \<Rightarrow> (flow \<times> response \<times> world) option" where
  "iteration pint retry_attempts server response_format attempt w =
     (case acquire w of
        None \<Rightarrow> None
      | Some w1 \<Rightarrow>
          (case session_get server w1 of
             (r, w2) \<Rightarrow>
               (case handle_response pint retry_attempts response_format attempt r w2 of
                  (fl, w3) \<Rightarrow> Some (fl, r, w3))))"

text \<open>
  After the loop: \<^verbatim>\<open>self.ratelimiter.release()\<close>, then the comparison
  \<^verbatim>\<open>status >= 500\<close>, which is a \<^verbatim>\<open>TypeError\<close> while \<^verbatim>\<open>status\<close> is still \<^verbatim>\<open>None\<close>.
  \<^verbatim>\<open>status\<close> and \<^verbatim>\<open>response\<close> are assigned together, so one optional response stands
  for both.
\<close>

definition after_loop :: "response option \<Rightarrow> world \<Rightarrow> (error + payload) \<times> world" where
  "after_loop last_response w =
     (let w1 = release 0 w in
      case last_response of
        None \<Rightarrow> (Inl TypeError, w1)
      | Some r \<Rightarrow>
          if status r \<ge> 500 then (Inl (LibError HypixelServerError []), w1)
          else (Inl (LibError (ERRORS_get (status r)) [r]), w1))"

text \<open>\<^verbatim>\<open>for attempt in range(self.retry_attempts)\<close>, from \<open>attempt\<close> on.\<close>

function request_loop ::
  "(string \<Rightarrow> int option) \<Rightarrow> int \<Rightarrow> (nat \<Rightarrow> nat \<times> response) \<Rightarrow> string \<Rightarrow> int
     \<Rightarrow> response option \<Rightarrow> world \<Rightarrow> ((error + payload) \<times> world) option" where
  "request_loop pint retry_attempts server response_format attempt last_response w =
     (if attempt < retry_attempts then
        (case iteration pint retry_attempts server response_format attempt w of
           None \<Rightarrow> None
         | Some (Next, r, w') \<Rightarrow>
             request_loop pint retry_attempts server response_format (attempt + 1) (Some r) w'
         | Some (Done res, r, w') \<Rightarrow> Some (res, w'))
      else Some (after_loop last_response w))"
  by pat_completeness auto
termination
  by (relation "measure (\<lambda>(pint, retry_attempts, server, response_format, attempt, last_response, w).
        nat (retry_attempts - attempt))") auto

text \<open>\<^verbatim>\<open>HTTPClient.request\<close>; \<open>None\<close> is a call that never returns.\<close>

definition request ::
  "(string \<Rightarrow> int option) \<Rightarrow> int \<Rightarrow> (nat \<Rightarrow> nat \<times> response) \<Rightarrow> string \<Rightarrow> world
     \<Rightarrow> ((error + payload) \<times> world) option" where
  "request pint retry_attempts server response_format w =
     request_loop pint retry_attempts server response_format 0 None w"

section \<open>Observations and example inputs\<close>

text \<open>The delays of the \<^verbatim>\<open>release\<close> calls of a trace, in order.\<close>

fun release_delays :: "event list \<Rightarrow> int list" where
  "release_delays [] = []"
| "release_delays (Release d # es) = d # release_delays es"
| "release_delays (e # es) = release_delays es"

text \<open>What a call left behind, and what a later operation does from there.\<close>

definition outcome :: "('a \<times> world) option \<Rightarrow> 'a option" where
  "outcome x = map_option fst x"

definition world_after :: "('a \<times> world) option \<Rightarrow> world option" where
  "world_after x = map_option snd x"

definition and_then :: "world option \<Rightarrow> (world \<Rightarrow> 'b option) \<Rightarrow> 'b option" where
  "and_then x f = (case x of None \<Rightarrow> None | Some w \<Rightarrow> f w)"

text \<open>
  A response with the given status and headers whose body is the empty JSON object, and a
  transport that answers the first GETs from a list and every later one alike.
\<close>

definition example_response :: "int \<Rightarrow> (string \<times> string) list \<Rightarrow> response" where
  "example_response st hs =
     \<lparr>status = st, headers = map_of hs, raw_body = ''{}'', text_body = ''{}'',
      json_body = Inr (JDict [])\<rparr>"

definition script :: "(nat \<times> response) list \<Rightarrow> nat \<times> response \<Rightarrow> nat \<Rightarrow> nat \<times> response" where
  "script answers rest k = (if k < length answers then answers ! k else rest)"

text \<open>The five values of \<^verbatim>\<open>ResponseFormat\<close>.\<close>

definition ResponseFormat :: "string list" where
  "ResponseFormat = [''raw'', ''text'', ''json'', ''auto'', ''response'']"

text \<open>The gate can still open: the flag is set, or a callback that sets it is pending.\<close>

definition gate_live :: "world \<Rightarrow> bool" where
  "gate_live w = (if lock w then True else timers w \<noteq> [])"

text \<open>A response with status 429 whose three header reads all succeed.\<close>

definition rate_limited :: "(string \<Rightarrow> int option) \<Rightarrow> response \<Rightarrow> bool" where
  "rate_limited pint r =
     (status r = 429 \<and> isr (rl_remaining_requests pint r) \<and> isr (rl_reset_after pint r)
      \<and> isr (rl_unlock_after pint r))"

section \<open>Running the model\<close>

lemmas run_defs =
  request_def iteration_def acquire_def session_get_def handle_response_def hget_def
  rl_remaining_requests_def rl_reset_after_def rl_unlock_after_def rl_sleep_for_def
  example_response_def fresh_def run_until_def release_def last_attempt_release_def
  after_loop_def dec_int_def dec_nat_def digit_of_def script_def outcome_def world_after_def
  and_then_def response_as_def ERRORS_get_def ERRORS_def ResponseFormat_def

section \<open>Facts about the operations\<close>

lemma acquire_facts:
  "acquire w = Some w1 \<Longrightarrow> trace w1 = trace w @ [Acquire] \<and> sent w1 = sent w \<and> lock w1"
  by (auto simp: acquire_def run_until_def Let_def list_ex_iff split: if_splits
      intro!: bexI[where x="Min (set (timers w))"])

lemma session_get_facts:
  "session_get server w1 = (r, w2) \<Longrightarrow>
     trace w2 = trace w1 @ [Get] \<and> sent w2 = Suc (sent w1) \<and> r = snd (server (sent w1))
     \<and> (lock w1 \<longrightarrow> lock w2)"
  by (auto simp: session_get_def run_until_def split: prod.splits)

lemma release_facts:
  "trace (release d w) = trace w @ [Release d]" "sent (release d w) = sent w"
  "timers (release d w) = timers w @ [now w + d]" "lock (release d w) = False"
  "now (release d w) = now w"
  by (simp_all add: release_def)

text \<open>After a release the next acquire returns when the earliest pending callback fires.\<close>

lemma acquire_after_release:
  "map_option now (acquire (release d w)) = Some (max (now w) (Min (set (timers w @ [now w + d]))))"
  "map_option lock (acquire (release d w)) = Some True"
   apply (simp add: acquire_def release_def run_until_def Let_def)
  using acquire_facts[of "release d w"]
  apply (cases "acquire (release d w)")
   apply (simp add: acquire_def release_def)
  apply simp
  done

lemma min_with_now: "Min (set (ts @ [t])) \<le> (t::int)"
  by simp

lemma iteration_eq:
  "acquire w = Some w1 \<Longrightarrow> session_get server w1 = (r, w2) \<Longrightarrow>
     iteration pint n server fmt a w =
       Some (fst (handle_response pint n fmt a r w2), r, snd (handle_response pint n fmt a r w2))"
  by (simp add: iteration_def split: prod.splits)

text \<open>The four branches on the status, once both header reads have succeeded.\<close>

lemma handle_2xx:
  "rl_remaining_requests pint r = Inr rem \<Longrightarrow> rl_reset_after pint r = Inr rst \<Longrightarrow>
   200 \<le> status r \<Longrightarrow> status r < 300 \<Longrightarrow>
   handle_response pint n fmt a r w
     = (Done (response_as r fmt), release (rl_sleep_for rem (status r) rst) w)"
  by (simp add: handle_response_def)

lemma handle_other:
  "rl_remaining_requests pint r = Inr rem \<Longrightarrow> rl_reset_after pint r = Inr rst \<Longrightarrow>
   \<not> (200 \<le> status r \<and> status r < 300) \<Longrightarrow> status r \<noteq> 429 \<Longrightarrow> status r < 500 \<Longrightarrow>
   handle_response pint n fmt a r w =
     (Done (Inl (LibError (ERRORS_get (status r)) [r])), release (rl_sleep_for rem (status r) rst) w)"
  by (auto simp: handle_response_def)

lemma handle_429:
  "rl_remaining_requests pint r = Inr rem \<Longrightarrow> rl_reset_after pint r = Inr rst \<Longrightarrow>
   rl_unlock_after pint r = Inr ra \<Longrightarrow> status r = 429 \<Longrightarrow>
   handle_response pint n fmt a r w = (Next, last_attempt_release n a 0 (release ra w))"
  by (simp add: handle_response_def rl_sleep_for_def)

lemma handle_5xx:
  "rl_remaining_requests pint r = Inr rem \<Longrightarrow> rl_reset_after pint r = Inr rst \<Longrightarrow>
   500 \<le> status r \<Longrightarrow>
   handle_response pint n fmt a r w = (Next, last_attempt_release n a (1 + a * 2) w)"
  by (simp add: handle_response_def)

lemma handle_parse_failure:
  "rl_remaining_requests pint r = Inl e \<or>
     (isr (rl_remaining_requests pint r) \<and> rl_reset_after pint r = Inl e) \<Longrightarrow>
   handle_response pint n fmt a r w = (Done (Inl e), w)"
  by (auto simp: handle_response_def isr_def split: sum.splits)

lemma handle_ignores_format:
  "\<not> (200 \<le> status r \<and> status r < 300) \<Longrightarrow>
     handle_response pint n fmt a r w = handle_response pint n fmt' a r w"
  by (auto simp: handle_response_def split: sum.splits)

lemma response_as_unknown: "fmt \<notin> set ResponseFormat \<Longrightarrow> response_as r fmt = Inl ValueError"
  by (simp add: response_as_def ResponseFormat_def)

lemma loop_done:
  "attempt < n \<Longrightarrow> iteration pint n server fmt attempt w = Some (Done res, r, w') \<Longrightarrow>
   request_loop pint n server fmt attempt lr w = Some (res, w')"
  by simp

lemma loop_next:
  "attempt < n \<Longrightarrow> iteration pint n server fmt attempt w = Some (Next, r, w') \<Longrightarrow>
   request_loop pint n server fmt attempt lr w
     = request_loop pint n server fmt (attempt + 1) (Some r) w'"
  by simp

lemma loop_last:
  "attempt = n - 1 \<Longrightarrow> iteration pint n server fmt attempt w = Some (Next, r, w') \<Longrightarrow>
   request_loop pint n server fmt attempt lr w = Some (after_loop (Some r) w')"
  by simp

lemma ERRORS_get_cases:
  "ERRORS_get 400 = DataMissing" "ERRORS_get 403 = Forbidden" "ERRORS_get 422 = DataInvalid"
  "ERRORS_get 429 = TooManyRequests"
  "st \<noteq> 400 \<Longrightarrow> st \<noteq> 403 \<Longrightarrow> st \<noteq> 422 \<Longrightarrow> st \<noteq> 429 \<Longrightarrow> ERRORS_get st = HTTPException"
  by (simp_all add: ERRORS_get_def ERRORS_def)

subsection \<open>A gate that can still open stays so\<close>

lemma gate_live_acquire: "gate_live w \<Longrightarrow> \<exists>w1. acquire w = Some w1"
  by (simp add: gate_live_def acquire_def Let_def split: if_splits)

lemma gate_live_release: "gate_live (release d w)"
  by (simp add: gate_live_def release_def)

lemma gate_live_last_attempt_release: "gate_live w \<Longrightarrow> gate_live (last_attempt_release n a d w)"
  by (simp add: last_attempt_release_def gate_live_release)

lemma sent_last_attempt_release: "sent (last_attempt_release n a d w) = sent w"
  by (simp add: last_attempt_release_def release_def)

subsection \<open>A budget of attempts that all see 429\<close>

lemma iteration_429:
  assumes "gate_live w" "rate_limited pint (snd (server (sent w)))"
  shows "\<exists>w'. iteration pint n server fmt a w = Some (Next, snd (server (sent w)), w')
           \<and> gate_live w' \<and> sent w' = Suc (sent w)"
proof -
  obtain w1 where a: "acquire w = Some w1" using gate_live_acquire[OF assms(1)] by blast
  obtain r w2 where g: "session_get server w1 = (r, w2)" by (cases "session_get server w1")
  have r: "r = snd (server (sent w))" "sent w2 = Suc (sent w)"
    using acquire_facts[OF a] session_get_facts[OF g] by simp_all
  from assms(2) r(1) obtain rem rst ra where
    p: "rl_remaining_requests pint r = Inr rem" "rl_reset_after pint r = Inr rst"
       "rl_unlock_after pint r = Inr ra" "status r = 429"
    by (auto simp: rate_limited_def isr_def split: sum.splits)
  let ?w' = "last_attempt_release n a 0 (release ra w2)"
  have "iteration pint n server fmt a w = Some (Next, r, ?w')"
    using iteration_eq[OF a g] handle_429[OF p] by simp
  moreover have "gate_live ?w'"
    by (simp add: gate_live_last_attempt_release gate_live_release)
  moreover have "sent ?w' = Suc (sent w)"
    using r(2) by (simp add: sent_last_attempt_release release_facts)
  ultimately show ?thesis using r(1) by blast
qed

lemma loop_429:
  "nat (n - a) = Suc m \<Longrightarrow> gate_live w \<Longrightarrow>
   (\<forall>k. sent w \<le> k \<and> k < sent w + Suc m \<longrightarrow> rate_limited pint (snd (server k))) \<Longrightarrow>
   \<exists>w'. request_loop pint n server fmt a lr w
           = Some (Inl (LibError TooManyRequests [snd (server (sent w + m))]), w')
         \<and> sent w' = sent w + Suc m"
proof (induction m arbitrary: a w lr)
  case 0
  then have lt: "a < n" and nx: "\<not> a + 1 < n" by linarith+
  from 0 have rl: "rate_limited pint (snd (server (sent w)))" by simp
  from iteration_429[where w=w and pint=pint and server=server and n=n and fmt=fmt and a=a,
      OF "0.prems"(2) rl] obtain w' where
    it: "iteration pint n server fmt a w = Some (Next, snd (server (sent w)), w')"
    and s: "sent w' = Suc (sent w)" by blast
  have st: "status (snd (server (sent w))) = 429" using rl by (simp add: rate_limited_def)
  have "request_loop pint n server fmt a lr w
          = request_loop pint n server fmt (a + 1) (Some (snd (server (sent w)))) w'"
    using loop_next[OF lt it] .
  also have "\<dots> = Some (after_loop (Some (snd (server (sent w)))) w')"
    using nx by simp
  also have "\<dots> = Some (Inl (LibError TooManyRequests [snd (server (sent w))]), release 0 w')"
    using st by (simp add: after_loop_def ERRORS_get_cases)
  finally show ?case using s by (simp add: release_facts)
next
  case (Suc m)
  then have lt: "a < n" and m: "nat (n - (a + 1)) = Suc m" by linarith+
  from Suc.prems(3) have rl: "rate_limited pint (snd (server (sent w)))" by simp
  from iteration_429[where w=w and pint=pint and server=server and n=n and fmt=fmt and a=a,
      OF Suc.prems(2) rl] obtain w' where
    it: "iteration pint n server fmt a w = Some (Next, snd (server (sent w)), w')"
    and g: "gate_live w'" and s: "sent w' = Suc (sent w)" by blast
  have all: "\<forall>k. sent w' \<le> k \<and> k < sent w' + Suc m \<longrightarrow> rate_limited pint (snd (server k))"
    using Suc.prems(3) s by simp
  from Suc.IH[OF m g all, of "Some (snd (server (sent w)))"] obtain w'' where
    "request_loop pint n server fmt (a + 1) (Some (snd (server (sent w)))) w'
       = Some (Inl (LibError TooManyRequests [snd (server (sent w' + m))]), w'')"
    "sent w'' = sent w' + Suc m" by blast
  then show ?case using loop_next[OF lt it] s by simp
qed

section \<open>Releases per loop iteration\<close>

text \<open>
  C1. Where the two header reads succeed, a pass through the loop body makes exactly one
  \<^verbatim>\<open>release\<close>, after the acquire and the GET, when the status is below 500 and not 429
  (the response is returned or a library error raised) and when the status is 429 on an
  attempt that is not the last (the loop goes on). On the last attempt the budget is used
  up and more than one release precedes the raise: a 429 is followed by the release with
  \<^verbatim>\<open>retry-after\<close>, the last-attempt release with delay 0 and the \<^verbatim>\<open>release()\<close> after the
  loop; a status of 500 or more by the last-attempt release with the back-off and the
  \<^verbatim>\<open>release()\<close> after the loop.
\<close>

theorem releases_in_settled_iterations:
  assumes "acquire w = Some w1" "session_get server w1 = (r, w2)"
    and "rl_remaining_requests pint r = Inr remaining" "rl_reset_after pint r = Inr reset_after"
  shows "(status r < 500 \<and> status r \<noteq> 429 \<longrightarrow>
            iteration pint retry_attempts server response_format attempt w
              = Some (Done (if 200 \<le> status r \<and> status r < 300
                            then response_as r response_format
                            else Inl (LibError (ERRORS_get (status r)) [r])),
                      r, release (rl_sleep_for remaining (status r) reset_after) w2)
            \<and> trace (release (rl_sleep_for remaining (status r) reset_after) w2)
                = trace w @ [Acquire, Get, Release (rl_sleep_for remaining (status r) reset_after)])
       \<and> (status r = 429 \<and> attempt \<noteq> retry_attempts - 1
            \<and> rl_unlock_after pint r = Inr unlock_after \<longrightarrow>
            iteration pint retry_attempts server response_format attempt w
              = Some (Next, r, release unlock_after w2)
            \<and> trace (release unlock_after w2) = trace w @ [Acquire, Get, Release unlock_after])
       \<and> (status r = 429 \<and> attempt = retry_attempts - 1
            \<and> rl_unlock_after pint r = Inr unlock_after \<longrightarrow>
            request_loop pint retry_attempts server response_format attempt last_response w
              = Some (Inl (LibError TooManyRequests [r]),
                      release 0 (release 0 (release unlock_after w2)))
            \<and> trace (release 0 (release 0 (release unlock_after w2)))
                = trace w @ [Acquire, Get, Release unlock_after, Release 0, Release 0])
       \<and> (500 \<le> status r \<and> attempt = retry_attempts - 1 \<longrightarrow>
            request_loop pint retry_attempts server response_format attempt last_response w
              = Some (Inl (LibError HypixelServerError []),
                      release 0 (release (1 + attempt * 2) w2))
            \<and> trace (release 0 (release (1 + attempt * 2) w2))
                = trace w @ [Acquire, Get, Release (1 + attempt * 2), Release 0])"
proof (intro conjI impI)
  have tr2: "trace w2 = trace w @ [Acquire, Get]"
    using acquire_facts[OF assms(1)] session_get_facts[OF assms(2)] by simp
  let ?d = "rl_sleep_for remaining (status r) reset_after"
  {
    assume h: "status r < 500 \<and> status r \<noteq> 429"
    show "iteration pint retry_attempts server response_format attempt w
              = Some (Done (if 200 \<le> status r \<and> status r < 300
                            then response_as r response_format
                            else Inl (LibError (ERRORS_get (status r)) [r])),
                      r, release ?d w2)"
    proof (cases "200 \<le> status r \<and> status r < 300")
      case True
      then show ?thesis
        using iteration_eq[OF assms(1,2)] handle_2xx[OF assms(3,4)] by simp
    next
      case False
      then show ?thesis
        using h iteration_eq[OF assms(1,2)] handle_other[OF assms(3,4) False] by auto
    qed
    show "trace (release ?d w2) = trace w @ [Acquire, Get, Release ?d]"
      using tr2 by (simp add: release_facts)
  }
  {
    assume h: "status r = 429 \<and> attempt \<noteq> retry_attempts - 1
            \<and> rl_unlock_after pint r = Inr unlock_after"
    then have "handle_response pint retry_attempts response_format attempt r w2
            = (Next, release unlock_after w2)"
      using handle_429[OF assms(3,4), of unlock_after] by (simp add: last_attempt_release_def)
    then show "iteration pint retry_attempts server response_format attempt w
              = Some (Next, r, release unlock_after w2)"
      using iteration_eq[OF assms(1,2)] by simp
    show "trace (release unlock_after w2) = trace w @ [Acquire, Get, Release unlock_after]"
      using tr2 by (simp add: release_facts)
  }
  {
    assume h: "status r = 429 \<and> attempt = retry_attempts - 1
            \<and> rl_unlock_after pint r = Inr unlock_after"
    then have "handle_response pint retry_attempts response_format attempt r w2
            = (Next, release 0 (release unlock_after w2))"
      using handle_429[OF assms(3,4), of unlock_after] by (simp add: last_attempt_release_def)
    then have it: "iteration pint retry_attempts server response_format attempt w
              = Some (Next, r, release 0 (release unlock_after w2))"
      using iteration_eq[OF assms(1,2)] by simp
    have "after_loop (Some r) (release 0 (release unlock_after w2))
            = (Inl (LibError TooManyRequests [r]), release 0 (release 0 (release unlock_after w2)))"
      using h by (simp add: after_loop_def ERRORS_get_cases)
    then show "request_loop pint retry_attempts server response_format attempt last_response w
              = Some (Inl (LibError TooManyRequests [r]),
                      release 0 (release 0 (release unlock_after w2)))"
      using h loop_last[OF _ it] by simp
    show "trace (release 0 (release 0 (release unlock_after w2)))
                = trace w @ [Acquire, Get, Release unlock_after, Release 0, Release 0]"
      using tr2 by (simp add: release_facts)
  }
  {
    assume h: "500 \<le> status r \<and> attempt = retry_attempts - 1"
    then have "handle_response pint retry_attempts response_format attempt r w2
            = (Next, release (1 + attempt * 2) w2)"
      using handle_5xx[OF assms(3,4)] by (simp add: last_attempt_release_def)
    then have it: "iteration pint retry_attempts server response_format attempt w
              = Some (Next, r, release (1 + attempt * 2) w2)"
      using iteration_eq[OF assms(1,2)] by simp
    have "after_loop (Some r) (release (1 + attempt * 2) w2)
            = (Inl (LibError HypixelServerError []), release 0 (release (1 + attempt * 2) w2))"
      using h by (simp add: after_loop_def)
    then show "request_loop pint retry_attempts server response_format attempt last_response w
              = Some (Inl (LibError HypixelServerError []),
                      release 0 (release (1 + attempt * 2) w2))"
      using h loop_last[OF _ it] by simp
    show "trace (release 0 (release (1 + attempt * 2) w2))
                = trace w @ [Acquire, Get, Release (1 + attempt * 2), Release 0]"
      using tr2 by (simp add: release_facts)
  }
qed

text \<open>
  The theorem at a 403 and at a 429 answered to the first attempt of three, and at a 429
  and a 500 answered to the only attempt of a budget of one.
\<close>

theorem releases_in_settled_iterations_witness:
  "iteration dec_int 3
     (script [] (1, example_response 403 [(''ratelimit-remaining'', ''5''), (''ratelimit-reset'', ''7'')]))
     ''json'' 0 fresh
   = Some (Done (Inl (LibError Forbidden
                   [example_response 403 [(''ratelimit-remaining'', ''5''), (''ratelimit-reset'', ''7'')]])),
           example_response 403 [(''ratelimit-remaining'', ''5''), (''ratelimit-reset'', ''7'')],
           \<lparr>now = 1, lock = False, timers = [1], sent = 1, trace = [Acquire, Get, Release 0]\<rparr>)
   \<and> iteration dec_int 3 (script [] (1, example_response 429 [(''retry-after'', ''10'')]))
       ''json'' 0 fresh
     = Some (Next, example_response 429 [(''retry-after'', ''10'')],
           \<lparr>now = 1, lock = False, timers = [11], sent = 1, trace = [Acquire, Get, Release 10]\<rparr>)
   \<and> request_loop dec_int 1 (script [] (1, example_response 429 [(''retry-after'', ''10'')]))
       ''json'' 0 None fresh
     = Some (Inl (LibError TooManyRequests [example_response 429 [(''retry-after'', ''10'')]]),
           \<lparr>now = 1, lock = False, timers = [11, 1, 1], sent = 1,
              trace = [Acquire, Get, Release 10, Release 0, Release 0]\<rparr>)
   \<and> request_loop dec_int 1 (script [] (1, example_response 500 [(''ratelimit-reset'', ''7'')]))
       ''json'' 0 None fresh
     = Some (Inl (LibError HypixelServerError []),
           \<lparr>now = 1, lock = False, timers = [2, 1], sent = 1,
              trace = [Acquire, Get, Release 1, Release 0]\<rparr>)"
proof -
  let ?r = "example_response 403 [(''ratelimit-remaining'', ''5''), (''ratelimit-reset'', ''7'')]"
  let ?q = "example_response 429 [(''retry-after'', ''10'')]"
  let ?s = "example_response 500 [(''ratelimit-reset'', ''7'')]"
  let ?w1 = "fresh\<lparr>trace := [Acquire]\<rparr>"
  let ?w2 = "\<lparr>now = 1, lock = True, timers = [], sent = 1, trace = [Acquire, Get]\<rparr>"
  have b: "acquire fresh = Some ?w1" by (simp add: acquire_def fresh_def)
  have c: "session_get (script [] (1, x)) ?w1 = (x, ?w2)" for x
    by (simp add: session_get_def script_def fresh_def run_until_def)
  have er: "rl_remaining_requests dec_int ?r = Inr 5" "rl_reset_after dec_int ?r = Inr 7"
    by (simp_all add: run_defs)
  have eq: "rl_remaining_requests dec_int ?q = Inr 0" "rl_reset_after dec_int ?q = Inr 10"
    by (simp_all add: run_defs)
  have es: "rl_remaining_requests dec_int ?s = Inr 0" "rl_reset_after dec_int ?s = Inr 7"
    by (simp_all add: run_defs)
  have h1: "status ?r < 500 \<and> status ?r \<noteq> 429" by (simp add: example_response_def)
  have h2: "status ?q = 429 \<and> (0::int) \<noteq> 3 - 1 \<and> rl_unlock_after dec_int ?q = Inr 10"
    by (simp add: run_defs)
  have h3: "status ?q = 429 \<and> (0::int) = 1 - 1 \<and> rl_unlock_after dec_int ?q = Inr 10"
    by (simp add: run_defs)
  have h4: "500 \<le> status ?s \<and> (0::int) = 1 - 1" by (simp add: example_response_def)
  note t1 = releases_in_settled_iterations[OF b c er, where retry_attempts=3 and attempt=0 and response_format="''json''",
      THEN conjunct1, THEN mp, OF h1, THEN conjunct1]
  note t2 = releases_in_settled_iterations[OF b c eq, where retry_attempts=3 and attempt=0 and response_format="''json''"
      and unlock_after=10,
      THEN conjunct2, THEN conjunct1, THEN mp, OF h2, THEN conjunct1]
  note t3 = releases_in_settled_iterations[OF b c eq, where retry_attempts=1 and attempt=0 and response_format="''json''"
      and unlock_after=10 and last_response=None,
      THEN conjunct2, THEN conjunct2, THEN conjunct1, THEN mp, OF h3, THEN conjunct1]
  note t4 = releases_in_settled_iterations[OF b c es, where retry_attempts=1 and attempt=0 and response_format="''json''"
      and last_response=None,
      THEN conjunct2, THEN conjunct2, THEN conjunct2, THEN mp, OF h4, THEN conjunct1]
  from t1 t2 t3 t4 show ?thesis
    by (simp add: release_def rl_sleep_for_def example_response_def ERRORS_get_cases)
qed

text \<open>
  One release per acquired iteration does not hold in general: a single attempt that sees
  500 is followed by two releases before the raise; a 500 on an attempt that is not the
  last makes none; a 429 on the last attempt makes two inside the loop.
\<close>

theorem release_count_counterexample:
  "and_then (world_after (request dec_int 1
       (script [] (1, example_response 500 [(''ratelimit-reset'', ''7'')])) ''json'' fresh))
     (Some \<circ> trace) = Some [Acquire, Get, Release 1, Release 0]
   \<and> map_option fst (iteration dec_int 3
       (script [] (1, example_response 500 [(''ratelimit-reset'', ''7'')])) ''json'' 0 fresh)
       = Some Next
   \<and> map_option (trace \<circ> snd \<circ> snd) (iteration dec_int 3
       (script [] (1, example_response 500 [(''ratelimit-reset'', ''7'')])) ''json'' 0 fresh)
       = Some [Acquire, Get]
   \<and> map_option (trace \<circ> snd \<circ> snd) (iteration dec_int 1
       (script [] (1, example_response 429 [(''retry-after'', ''10'')])) ''json'' 0 fresh)
       = Some [Acquire, Get, Release 10, Release 0]"
  by (simp add: run_defs)

section \<open>Two releases in a row\<close>

text \<open>
  C2. A second \<^verbatim>\<open>release\<close> at a time \<open>t\<close> at which the gate is still closed from a first
  one does not replace the callback of the first: both stay pending, and the gate reopens
  when the earlier of the two deadlines has come.
\<close>

theorem release_stacks_timers:
  assumes "timers w = []" "now w \<le> t" "t < now w + a"
  shows "lock (run_until t (release a w)) = False
       \<and> timers (release b (run_until t (release a w))) = [now w + a, t + b]
       \<and> map_option now (acquire (release b (run_until t (release a w))))
           = Some (max t (min (now w + a) (t + b)))
       \<and> map_option lock (acquire (release b (run_until t (release a w)))) = Some True"
proof -
  let ?w1 = "run_until t (release a w)"
  have 1: "lock ?w1 = False" "timers ?w1 = [now w + a]" "now ?w1 = t"
    using assms by (simp_all add: run_until_def release_def)
  have 2: "timers (release b ?w1) = [now w + a, t + b]"
    using 1 by (simp add: release_facts)
  have 3: "map_option now (acquire (release b ?w1)) = Some (max t (min (now w + a) (t + b)))"
    using 1 by (simp add: acquire_after_release(1))
  from 1(1) 2 3 acquire_after_release(2)[of b ?w1] show ?thesis by blast
qed

text \<open>
  The theorem at a release with delay 5 followed, two seconds later, by one with delay 30.
\<close>

theorem release_stacks_timers_witness:
  "timers (release 30 (run_until 2 (release 5 fresh))) = [5, 32]
   \<and> map_option now (acquire (release 30 (run_until 2 (release 5 fresh)))) = Some 5"
  using release_stacks_timers[of fresh 2 5 30] by (simp add: fresh_def)

text \<open>
  The most recent delay does not win, and two callbacks are pending at once: after
  \<^verbatim>\<open>release(5)\<close> and \<^verbatim>\<open>release(30)\<close> the gate reopens at time 5.
\<close>

theorem release_replaces_counterexample:
  "lock (release 5 fresh) = False
   \<and> timers (release 30 (release 5 fresh)) = [5, 30]
   \<and> map_option now (acquire (release 30 (release 5 fresh))) = Some 5"
  by (simp add: run_defs)

section \<open>The response format\<close>

text \<open>
  C3. A response format outside \<^verbatim>\<open>ResponseFormat\<close> makes \<^verbatim>\<open>response_as\<close> raise
  \<^verbatim>\<open>ValueError\<close>. \<^verbatim>\<open>request\<close> reaches that check only for a response with a status in
  [200, 300), after the acquire, the GET and the release; a response with another status
  is handled without looking at the format.
\<close>

theorem unknown_format_checked_after_get:
  assumes "response_format \<notin> set ResponseFormat"
  shows "response_as r response_format = Inl ValueError
       \<and> (attempt < retry_attempts \<and> acquire w = Some w1 \<and> session_get server w1 = (r, w2)
            \<and> 200 \<le> status r \<and> status r < 300
            \<and> rl_remaining_requests pint r = Inr remaining
            \<and> rl_reset_after pint r = Inr reset_after \<longrightarrow>
            request_loop pint retry_attempts server response_format attempt last_response w
              = Some (Inl ValueError, release (rl_sleep_for remaining (status r) reset_after) w2)
            \<and> trace (release (rl_sleep_for remaining (status r) reset_after) w2)
              = trace w @ [Acquire, Get, Release (rl_sleep_for remaining (status r) reset_after)])
       \<and> (\<not> (200 \<le> status r' \<and> status r' < 300) \<longrightarrow>
            handle_response pint retry_attempts response_format attempt r' w'
              = handle_response pint retry_attempts ''json'' attempt r' w')"
proof (intro conjI impI)
  show u: "response_as r response_format = Inl ValueError"
    using assms by (rule response_as_unknown)
  {
    assume h: "attempt < retry_attempts \<and> acquire w = Some w1 \<and> session_get server w1 = (r, w2)
            \<and> 200 \<le> status r \<and> status r < 300
            \<and> rl_remaining_requests pint r = Inr remaining
            \<and> rl_reset_after pint r = Inr reset_after"
    let ?d = "rl_sleep_for remaining (status r) reset_after"
    have "iteration pint retry_attempts server response_format attempt w
            = Some (Done (Inl ValueError), r, release ?d w2)"
      using h u iteration_eq[of w w1 server r w2]
        handle_2xx[of pint r remaining reset_after retry_attempts response_format attempt w2]
      by simp
    then show "request_loop pint retry_attempts server response_format attempt last_response w
              = Some (Inl ValueError, release ?d w2)"
      using h loop_done by blast
    show "trace (release ?d w2) = trace w @ [Acquire, Get, Release ?d]"
      using h acquire_facts[of w w1] session_get_facts[of server w1 r w2]
      by (simp add: release_facts)
  }
  assume "\<not> (200 \<le> status r' \<and> status r' < 300)"
  then show "handle_response pint retry_attempts response_format attempt r' w'
              = handle_response pint retry_attempts ''json'' attempt r' w'"
    by (rule handle_ignores_format)
qed

text \<open>
  The theorem at the format \<^verbatim>\<open>xml\<close>, with a 200 and with a 403.
\<close>

theorem unknown_format_checked_after_get_witness:
  "''xml'' \<notin> set ResponseFormat
   \<and> request_loop dec_int 3
       (script [] (1, example_response 200 [(''ratelimit-remaining'', ''5''), (''ratelimit-reset'', ''7'')]))
       ''xml'' 0 None fresh
     = Some (Inl ValueError,
             \<lparr>now = 1, lock = False, timers = [1], sent = 1, trace = [Acquire, Get, Release 0]\<rparr>)
   \<and> handle_response dec_int 3 ''xml'' 0 (example_response 403 [(''ratelimit-reset'', ''7'')]) fresh
     = handle_response dec_int 3 ''json'' 0 (example_response 403 [(''ratelimit-reset'', ''7'')]) fresh"
proof -
  let ?r = "example_response 200 [(''ratelimit-remaining'', ''5''), (''ratelimit-reset'', ''7'')]"
  let ?r' = "example_response 403 [(''ratelimit-reset'', ''7'')]"
  let ?srv = "script [] (1, ?r)"
  let ?w1 = "fresh\<lparr>trace := [Acquire]\<rparr>"
  let ?w2 = "\<lparr>now = 1, lock = True, timers = [], sent = 1, trace = [Acquire, Get]\<rparr>"
  have x: "''xml'' \<notin> set ResponseFormat" by (simp add: ResponseFormat_def)
  note t = unknown_format_checked_after_get[OF x, where attempt=0 and retry_attempts=3 and w=fresh and ?w1.0="?w1"
      and server="?srv" and r="?r" and ?w2.0="?w2" and pint=dec_int and remaining=5
      and reset_after=7 and last_response=None and r'="?r'" and w'=fresh]
  have A: "(0::int) < 3 \<and> acquire fresh = Some ?w1 \<and> session_get ?srv ?w1 = (?r, ?w2)
            \<and> 200 \<le> status ?r \<and> status ?r < 300
            \<and> rl_remaining_requests dec_int ?r = Inr 5
            \<and> rl_reset_after dec_int ?r = Inr 7"
    by (simp add: run_defs)
  have B: "\<not> (200 \<le> status ?r' \<and> status ?r' < 300)" by (simp add: example_response_def)
  from x t[THEN conjunct2, THEN conjunct1, THEN mp, OF A]
    t[THEN conjunct2, THEN conjunct2, THEN mp, OF B]
  show ?thesis by (simp add: release_def rl_sleep_for_def example_response_def)
qed

text \<open>
  The error does not come before the network call: with the format \<^verbatim>\<open>xml\<close> a GET is
  sent and the gate released before \<^verbatim>\<open>ValueError\<close> is raised, and when the answer is a 403
  the call raises \<^verbatim>\<open>Forbidden\<close> and the format is never checked.
\<close>

theorem unknown_format_counterexample:
  "''xml'' \<notin> set ResponseFormat
   \<and> outcome (request dec_int 3
       (script [] (1, example_response 200 [(''ratelimit-remaining'', ''5''), (''ratelimit-reset'', ''7'')]))
       ''xml'' fresh) = Some (Inl ValueError)
   \<and> and_then (world_after (request dec_int 3
       (script [] (1, example_response 200 [(''ratelimit-remaining'', ''5''), (''ratelimit-reset'', ''7'')]))
       ''xml'' fresh)) (Some \<circ> trace) = Some [Acquire, Get, Release 0]
   \<and> outcome (request dec_int 3
       (script [] (1, example_response 403 [(''ratelimit-remaining'', ''5''), (''ratelimit-reset'', ''7'')]))
       ''xml'' fresh)
     = Some (Inl (LibError Forbidden
          [example_response 403 [(''ratelimit-remaining'', ''5''), (''ratelimit-reset'', ''7'')]]))"
  by (simp add: run_defs)

section \<open>Retries on server errors\<close>

text \<open>
  C4. Three attempts that all see status 500 end in \<^verbatim>\<open>HypixelServerError\<close> after three
  GETs, but the back-off computed in each attempt (1, 3, 5) reaches \<^verbatim>\<open>release\<close> only
  in the last one: the delays released are 5 and then 0, both after the third GET, and the
  gate is never closed between the attempts.
\<close>

theorem server_errors_release_only_at_the_end:
  "outcome (request dec_int 3
      (script [] (1, example_response 500
         [(''ratelimit-remaining'', ''5''), (''ratelimit-reset'', ''7'')]))
      ''json'' fresh)
     = Some (Inl (LibError HypixelServerError []))
   \<and> and_then (world_after (request dec_int 3
      (script [] (1, example_response 500
         [(''ratelimit-remaining'', ''5''), (''ratelimit-reset'', ''7'')]))
      ''json'' fresh)) (Some \<circ> trace)
     = Some [Acquire, Get, Acquire, Get, Acquire, Get, Release 5, Release 0]
   \<and> and_then (world_after (request dec_int 3
      (script [] (1, example_response 500
         [(''ratelimit-remaining'', ''5''), (''ratelimit-reset'', ''7'')]))
      ''json'' fresh)) (Some \<circ> release_delays \<circ> trace)
     = Some [5, 0]"
  by (simp add: run_defs)

section \<open>Responses with a status in [200, 300)\<close>

text \<open>
  C5. Where the two header reads succeed, a response with a status in [200, 300) ends
  the call with what \<^verbatim>\<open>response_as\<close> gives, after exactly one release: with delay 0 when
  \<^verbatim>\<open>ratelimit-remaining\<close> is not 0, and then the next acquire returns without delay; with
  the reset delay when it is 0, and then the next acquire returns that many seconds later
  provided no callback of an earlier release is still pending, and in general when the
  earliest pending callback fires.
\<close>

theorem success_releases_and_returns:
  assumes "attempt < retry_attempts" "acquire w = Some w1" "session_get server w1 = (r, w2)"
    and "200 \<le> status r" "status r < 300"
    and "rl_remaining_requests pint r = Inr remaining" "rl_reset_after pint r = Inr reset_after"
  shows "request_loop pint retry_attempts server response_format attempt last_response w
           = Some (response_as r response_format,
                   release (if remaining = 0 then reset_after else 0) w2)
         \<and> trace (release (if remaining = 0 then reset_after else 0) w2)
             = trace w @ [Acquire, Get, Release (if remaining = 0 then reset_after else 0)]
         \<and> (remaining \<noteq> 0 \<longrightarrow> map_option now (acquire (release 0 w2)) = Some (now w2))
         \<and> (remaining = 0 \<and> timers w2 = [] \<longrightarrow>
               map_option now (acquire (release reset_after w2))
                 = Some (max (now w2) (now w2 + reset_after)))
         \<and> (remaining = 0 \<longrightarrow>
               map_option now (acquire (release reset_after w2))
                 = Some (max (now w2) (Min (set (timers w2 @ [now w2 + reset_after])))))"
proof -
  let ?d = "if remaining = 0 then reset_after else 0"
  have sl: "rl_sleep_for remaining (status r) reset_after = ?d"
    using assms(4,5) by (simp add: rl_sleep_for_def)
  have it: "iteration pint retry_attempts server response_format attempt w
             = Some (Done (response_as r response_format), r, release ?d w2)"
    using iteration_eq[OF assms(2,3)] handle_2xx[OF assms(6,7,4,5)] sl by simp
  have loop: "request_loop pint retry_attempts server response_format attempt last_response w
           = Some (response_as r response_format, release ?d w2)"
    using loop_done[OF assms(1) it] .
  have tr: "trace (release ?d w2) = trace w @ [Acquire, Get, Release ?d]"
    using acquire_facts[OF assms(2)] session_get_facts[OF assms(3)] by (simp add: release_facts)
  have "Min (set (timers w2 @ [now w2 + 0])) \<le> now w2"
    using min_with_now[of "timers w2" "now w2"] by simp
  then have zero: "map_option now (acquire (release 0 w2)) = Some (now w2)"
    unfolding acquire_after_release(1) by (simp only: max_absorb1)
  have quiet: "remaining = 0 \<and> timers w2 = [] \<longrightarrow>
      map_option now (acquire (release reset_after w2)) = Some (max (now w2) (now w2 + reset_after))"
    by (simp add: acquire_after_release(1))
  note general = acquire_after_release(1)[of reset_after w2]
  from loop tr zero quiet general show ?thesis by blast
qed

text \<open>
  The theorem at a 200 with \<^verbatim>\<open>ratelimit-remaining: 0\<close> and \<^verbatim>\<open>ratelimit-reset: 30\<close> on a
  fresh limiter: the release is at time 1 and the next acquire returns at time 31.
\<close>

theorem success_releases_and_returns_witness:
  "request dec_int 3
     (script [] (1, example_response 200 [(''ratelimit-remaining'', ''0''), (''ratelimit-reset'', ''30'')]))
     ''json'' fresh
     = Some (Inr (Json (JDict [])),
             \<lparr>now = 1, lock = False, timers = [31], sent = 1, trace = [Acquire, Get, Release 30]\<rparr>)
   \<and> map_option now (acquire
        \<lparr>now = 1, lock = False, timers = [31], sent = 1, trace = [Acquire, Get, Release 30]\<rparr>)
     = Some 31"
proof -
  let ?r = "example_response 200 [(''ratelimit-remaining'', ''0''), (''ratelimit-reset'', ''30'')]"
  let ?srv = "script [] (1, ?r)"
  let ?w1 = "fresh\<lparr>trace := [Acquire]\<rparr>"
  let ?w2 = "\<lparr>now = 1, lock = True, timers = [], sent = 1, trace = [Acquire, Get]\<rparr>"
  have a: "(0::int) < 3" by simp
  have b: "acquire fresh = Some ?w1" by (simp add: acquire_def fresh_def)
  have c: "session_get ?srv ?w1 = (?r, ?w2)" by (simp add: session_get_def script_def fresh_def run_until_def)
  have d: "200 \<le> status ?r" "status ?r < 300" by (simp_all add: example_response_def)
  have e: "rl_remaining_requests dec_int ?r = Inr 0" "rl_reset_after dec_int ?r = Inr 30"
    by (simp_all add: run_defs)
  from success_releases_and_returns[OF a b c d e, of "''json''" None]
  show ?thesis by (simp add: request_def example_response_def response_as_def release_def)
qed

text \<open>
  After a call that used up three attempts on 500s, a callback for time 8 is still
  pending. A second call gets a 200 with \<^verbatim>\<open>ratelimit-remaining: 0\<close> and
  \<^verbatim>\<open>ratelimit-reset: 30\<close> at time 4 and releases with delay 30, yet the next acquire
  returns at time 8.
\<close>

theorem success_reopen_counterexample:
  "outcome (and_then (world_after (request dec_int 3
       (script [(1, example_response 500 [(''ratelimit-reset'', ''7'')]),
                (1, example_response 500 [(''ratelimit-reset'', ''7'')]),
                (1, example_response 500 [(''ratelimit-reset'', ''7'')])]
          (1, example_response 200 [(''ratelimit-remaining'', ''0''), (''ratelimit-reset'', ''30'')]))
        ''json'' fresh))
      (request dec_int 3
       (script [(1, example_response 500 [(''ratelimit-reset'', ''7'')]),
                (1, example_response 500 [(''ratelimit-reset'', ''7'')]),
                (1, example_response 500 [(''ratelimit-reset'', ''7'')])]
          (1, example_response 200 [(''ratelimit-remaining'', ''0''), (''ratelimit-reset'', ''30'')]))
        ''json''))
    = Some (Inr (Json (JDict [])))
  \<and> world_after (and_then (world_after (request dec_int 3
       (script [(1, example_response 500 [(''ratelimit-reset'', ''7'')]),
                (1, example_response 500 [(''ratelimit-reset'', ''7'')]),
                (1, example_response 500 [(''ratelimit-reset'', ''7'')])]
          (1, example_response 200 [(''ratelimit-remaining'', ''0''), (''ratelimit-reset'', ''30'')]))
        ''json'' fresh))
      (request dec_int 3
       (script [(1, example_response 500 [(''ratelimit-reset'', ''7'')]),
                (1, example_response 500 [(''ratelimit-reset'', ''7'')]),
                (1, example_response 500 [(''ratelimit-reset'', ''7'')])]
          (1, example_response 200 [(''ratelimit-remaining'', ''0''), (''ratelimit-reset'', ''30'')]))
        ''json''))
    = Some \<lparr>now = 4, lock = False, timers = [8, 34], sent = 4,
         trace = [Acquire, Get, Acquire, Get, Acquire, Get, Release 5, Release 0,
                  Acquire, Get, Release 30]\<rparr>
  \<and> map_option now (acquire \<lparr>now = 4, lock = False, timers = [8, 34], sent = 4,
         trace = [Acquire, Get, Acquire, Get, Acquire, Get, Release 5, Release 0,
                  Acquire, Get, Release 30]\<rparr>) = Some 8"
  by (simp add: run_defs)

section \<open>Client errors\<close>

text \<open>
  C6. A response with a status in [400, 500) other than 429 ends the call at once, with
  one GET sent for the attempt and no further attempt. Where the two header reads succeed
  there is one release, then the library error that \<^verbatim>\<open>ERRORS\<close> gives for the status (400
  \<^verbatim>\<open>DataMissing\<close>, 403 \<^verbatim>\<open>Forbidden\<close>, 422 \<^verbatim>\<open>DataInvalid\<close>, any other
  \<^verbatim>\<open>HTTPException\<close>) carrying the response; a 403 on the first attempt makes \<^verbatim>\<open>request\<close>
  raise \<^verbatim>\<open>Forbidden\<close>. Where a header read fails, the error of that read is raised
  instead, with no release.
\<close>

theorem client_error_raises_mapped_error:
  assumes "attempt < retry_attempts" "acquire w = Some w1" "session_get server w1 = (r, w2)"
    and "400 \<le> status r" "status r < 500" "status r \<noteq> 429"
  shows "(rl_remaining_requests pint r = Inr remaining \<and> rl_reset_after pint r = Inr reset_after
          \<longrightarrow>
            request_loop pint retry_attempts server response_format attempt last_response w
              = Some (Inl (LibError (ERRORS_get (status r)) [r]),
                      release (rl_sleep_for remaining (status r) reset_after) w2)
            \<and> trace (release (rl_sleep_for remaining (status r) reset_after) w2)
                = trace w @ [Acquire, Get, Release (rl_sleep_for remaining (status r) reset_after)]
            \<and> sent (release (rl_sleep_for remaining (status r) reset_after) w2) = Suc (sent w)
            \<and> (status r = 403 \<and> attempt = 0 \<and> last_response = None \<longrightarrow>
                 request pint retry_attempts server response_format w
                   = Some (Inl (LibError Forbidden [r]),
                           release (rl_sleep_for remaining (status r) reset_after) w2)))
       \<and> (rl_remaining_requests pint r = Inl e
            \<or> (isr (rl_remaining_requests pint r) \<and> rl_reset_after pint r = Inl e) \<longrightarrow>
            request_loop pint retry_attempts server response_format attempt last_response w
              = Some (Inl e, w2)
            \<and> trace w2 = trace w @ [Acquire, Get] \<and> sent w2 = Suc (sent w))
       \<and> ERRORS_get 400 = DataMissing \<and> ERRORS_get 403 = Forbidden
       \<and> ERRORS_get 422 = DataInvalid
       \<and> (status r \<notin> {400, 403, 422} \<longrightarrow> ERRORS_get (status r) = HTTPException)"
proof -
  have tr2: "trace w2 = trace w @ [Acquire, Get]" "sent w2 = Suc (sent w)"
    using acquire_facts[OF assms(2)] session_get_facts[OF assms(3)] by simp_all
  have ok: "request_loop pint retry_attempts server response_format attempt last_response w
              = Some (Inl (LibError (ERRORS_get (status r)) [r]),
                      release (rl_sleep_for remaining (status r) reset_after) w2)
            \<and> trace (release (rl_sleep_for remaining (status r) reset_after) w2)
                = trace w @ [Acquire, Get, Release (rl_sleep_for remaining (status r) reset_after)]
            \<and> sent (release (rl_sleep_for remaining (status r) reset_after) w2) = Suc (sent w)
            \<and> (status r = 403 \<and> attempt = 0 \<and> last_response = None \<longrightarrow>
                 request pint retry_attempts server response_format w
                   = Some (Inl (LibError Forbidden [r]),
                           release (rl_sleep_for remaining (status r) reset_after) w2))"
    if p: "rl_remaining_requests pint r = Inr remaining \<and> rl_reset_after pint r = Inr reset_after"
  proof -
    let ?d = "rl_sleep_for remaining (status r) reset_after"
    have "handle_response pint retry_attempts response_format attempt r w2
             = (Done (Inl (LibError (ERRORS_get (status r)) [r])), release ?d w2)"
      using p assms(4,5,6) by (intro handle_other) auto
    then have it: "iteration pint retry_attempts server response_format attempt w
             = Some (Done (Inl (LibError (ERRORS_get (status r)) [r])), r, release ?d w2)"
      using iteration_eq[OF assms(2,3)] by simp
    have loop: "request_loop pint retry_attempts server response_format attempt last_response w
           = Some (Inl (LibError (ERRORS_get (status r)) [r]), release ?d w2)"
      using loop_done[OF assms(1) it] .
    have first: "status r = 403 \<and> attempt = 0 \<and> last_response = None \<longrightarrow>
              request pint retry_attempts server response_format w
                = Some (Inl (LibError Forbidden [r]), release ?d w2)"
      using loop by (auto simp: request_def ERRORS_get_cases)
    show ?thesis using loop first tr2 by (simp add: release_facts)
  qed
  have bad: "request_loop pint retry_attempts server response_format attempt last_response w
              = Some (Inl e, w2)
            \<and> trace w2 = trace w @ [Acquire, Get] \<and> sent w2 = Suc (sent w)"
    if p: "rl_remaining_requests pint r = Inl e
            \<or> (isr (rl_remaining_requests pint r) \<and> rl_reset_after pint r = Inl e)"
  proof -
    have "iteration pint retry_attempts server response_format attempt w
               = Some (Done (Inl e), r, w2)"
      using iteration_eq[OF assms(2,3)] handle_parse_failure[OF p] by simp
    then show ?thesis using loop_done[OF assms(1)] tr2 by simp
  qed
  have un: "status r \<notin> {400, 403, 422} \<longrightarrow> ERRORS_get (status r) = HTTPException"
    using assms(6) by (simp add: ERRORS_get_cases)
  from ok bad un ERRORS_get_cases(1,2,3) show ?thesis by blast
qed

text \<open>
  The theorem at a 403 with both headers, at a 400 whose \<^verbatim>\<open>ratelimit-reset\<close> does not
  parse, and at the unmapped status 404.
\<close>

theorem client_error_raises_mapped_error_witness:
  "request dec_int 3 (script [] (1, example_response 403 [(''ratelimit-remaining'', ''5''), (''ratelimit-reset'', ''7'')])) ''json'' fresh
     = Some (Inl (LibError Forbidden [example_response 403 [(''ratelimit-remaining'', ''5''), (''ratelimit-reset'', ''7'')]]),
             \<lparr>now = 1, lock = False, timers = [1], sent = 1, trace = [Acquire, Get, Release 0]\<rparr>)
   \<and> request_loop dec_int 3 (script [] (1, example_response 400 [(''ratelimit-reset'', ''x'')]))
        ''json'' 0 None fresh
     = Some (Inl ValueError,
             \<lparr>now = 1, lock = True, timers = [], sent = 1, trace = [Acquire, Get]\<rparr>)
   \<and> ERRORS_get (status (example_response 404 [])) = HTTPException"
proof -
  let ?r = "example_response 403 [(''ratelimit-remaining'', ''5''), (''ratelimit-reset'', ''7'')]"
  let ?q = "example_response 400 [(''ratelimit-reset'', ''x'')]"
  let ?w1 = "fresh\<lparr>trace := [Acquire]\<rparr>"
  let ?w2 = "\<lparr>now = 1, lock = True, timers = [], sent = 1, trace = [Acquire, Get]\<rparr>"
  have a: "(0::int) < 3" by simp
  have b: "acquire fresh = Some ?w1" by (simp add: acquire_def fresh_def)
  have c: "session_get (script [] (1, x)) ?w1 = (x, ?w2)" for x
    by (simp add: session_get_def script_def fresh_def run_until_def)
  have d: "400 \<le> status ?r" "status ?r < 500" "status ?r \<noteq> 429"
    by (simp_all add: example_response_def)
  have d': "400 \<le> status ?q" "status ?q < 500" "status ?q \<noteq> 429"
    by (simp_all add: example_response_def)
  have d'': "400 \<le> status (example_response 404 [])" "status (example_response 404 []) < 500"
    "status (example_response 404 []) \<noteq> 429"
    by (simp_all add: example_response_def)
  have e: "rl_remaining_requests dec_int ?r = Inr 5 \<and> rl_reset_after dec_int ?r = Inr 7"
    by (simp add: run_defs)
  have f: "rl_remaining_requests dec_int ?q = Inl ValueError
            \<or> (isr (rl_remaining_requests dec_int ?q) \<and> rl_reset_after dec_int ?q = Inl ValueError)"
    by (simp add: run_defs isr_def)
  have g: "status ?r = 403 \<and> (0::int) = 0 \<and> (None :: response option) = None"
    by (simp add: example_response_def)
  have n: "status (example_response 404 []) \<notin> {400, 403, 422}" by (simp add: example_response_def)
  note t1 = client_error_raises_mapped_error[OF a b c d, where response_format="''json''" and last_response=None
      and pint=dec_int and remaining=5 and reset_after=7,
      THEN conjunct1, THEN mp, OF e, THEN conjunct2, THEN conjunct2, THEN conjunct2, THEN mp, OF g]
  note t2 = client_error_raises_mapped_error[OF a b c d', where response_format="''json''" and last_response=None
      and pint=dec_int and e=ValueError,
      THEN conjunct2, THEN conjunct1, THEN mp, OF f, THEN conjunct1]
  note t3 = client_error_raises_mapped_error[OF a b c d'', THEN conjunct2, THEN conjunct2, THEN conjunct2, THEN conjunct2,
      THEN conjunct2, THEN mp, OF n]
  from t1 t2 t3 show ?thesis
    by (simp add: release_def rl_sleep_for_def example_response_def)
qed

text \<open>
  Not every 403 raises \<^verbatim>\<open>Forbidden\<close>: a 403 that carries neither \<^verbatim>\<open>ratelimit-reset\<close>
  nor \<^verbatim>\<open>retry-after\<close> ends the call in \<^verbatim>\<open>TypeError\<close> after the GET, with no release.
\<close>

theorem client_error_without_headers_counterexample:
  "request dec_int 3 (script [] (1, example_response 403 [])) ''json'' fresh
     = Some (Inl TypeError,
             \<lparr>now = 1, lock = True, timers = [], sent = 1, trace = [Acquire, Get]\<rparr>)"
  by (simp add: run_defs)

section \<open>Reading the rate-limit headers\<close>

text \<open>
  C7. \<^verbatim>\<open>ratelimit-remaining\<close> is 0 when the header is absent; when it is present its
  value is parsed, and a value that does not parse is a \<^verbatim>\<open>ValueError\<close>. The reset delay is
  the parsed \<^verbatim>\<open>ratelimit-reset\<close> when that header is present and the read of
  \<^verbatim>\<open>retry-after\<close> otherwise; with both absent it is a \<^verbatim>\<open>TypeError\<close>. An error of either
  read ends the call with that error, after the GET, with no release and no further
  attempt.
\<close>

theorem header_reads:
  "(headers r ''ratelimit-remaining'' = None \<longrightarrow> rl_remaining_requests pint r = Inr 0)
   \<and> (headers r ''ratelimit-remaining'' = Some s \<and> pint s = None \<longrightarrow>
        rl_remaining_requests pint r = Inl ValueError)
   \<and> (headers r ''ratelimit-remaining'' = Some s \<and> pint s = Some i \<longrightarrow>
        rl_remaining_requests pint r = Inr i)
   \<and> (headers r ''ratelimit-reset'' = Some s' \<longrightarrow> rl_reset_after pint r = py_int pint (PStr s'))
   \<and> (headers r ''ratelimit-reset'' = None \<longrightarrow> rl_reset_after pint r = rl_unlock_after pint r)
   \<and> (headers r ''ratelimit-reset'' = None \<and> headers r ''retry-after'' = None \<longrightarrow>
        rl_reset_after pint r = Inl TypeError)
   \<and> (attempt < retry_attempts \<and> acquire w = Some w1 \<and> session_get server w1 = (r, w2)
        \<and> (rl_remaining_requests pint r = Inl e
             \<or> (isr (rl_remaining_requests pint r) \<and> rl_reset_after pint r = Inl e)) \<longrightarrow>
        request_loop pint retry_attempts server response_format attempt last_response w
          = Some (Inl e, w2)
        \<and> trace w2 = trace w @ [Acquire, Get])"
proof (intro conjI impI)
  assume h: "attempt < retry_attempts \<and> acquire w = Some w1 \<and> session_get server w1 = (r, w2)
        \<and> (rl_remaining_requests pint r = Inl e
             \<or> (isr (rl_remaining_requests pint r) \<and> rl_reset_after pint r = Inl e))"
  then have "iteration pint retry_attempts server response_format attempt w
               = Some (Done (Inl e), r, w2)"
    using iteration_eq[of w w1 server r w2]
      handle_parse_failure[of pint r e retry_attempts response_format attempt w2] by simp
  then show "request_loop pint retry_attempts server response_format attempt last_response w
          = Some (Inl e, w2)"
    using h loop_done by blast
  show "trace w2 = trace w @ [Acquire, Get]"
    using h acquire_facts[of w w1] session_get_facts[of server w1 r w2] by simp
qed (simp_all add: rl_remaining_requests_def rl_reset_after_def rl_unlock_after_def hget_def)

text \<open>
  The theorem at a response without headers, at one whose \<^verbatim>\<open>ratelimit-remaining\<close> is
  \<^verbatim>\<open>abc\<close>, and at one with \<^verbatim>\<open>retry-after\<close> only.
\<close>

theorem header_reads_witness:
  "rl_remaining_requests dec_int (example_response 403 []) = Inr 0
   \<and> rl_reset_after dec_int (example_response 403 []) = Inl TypeError
   \<and> request_loop dec_int 3 (script [] (1, example_response 403 [])) ''json'' 0 None fresh
      = Some (Inl TypeError,
              \<lparr>now = 1, lock = True, timers = [], sent = 1, trace = [Acquire, Get]\<rparr>)
   \<and> rl_remaining_requests dec_int
        (example_response 200 [(''ratelimit-remaining'', ''abc''), (''ratelimit-reset'', ''30'')])
      = Inl ValueError
   \<and> rl_reset_after dec_int
        (example_response 200 [(''ratelimit-remaining'', ''abc''), (''ratelimit-reset'', ''30'')])
      = Inr 30
   \<and> rl_remaining_requests dec_int
        (example_response 200 [(''ratelimit-remaining'', ''5''), (''retry-after'', ''9'')])
      = Inr 5
   \<and> rl_reset_after dec_int
        (example_response 200 [(''ratelimit-remaining'', ''5''), (''retry-after'', ''9'')])
      = Inr 9"
proof -
  let ?r = "example_response 403 []"
  let ?q = "example_response 200 [(''ratelimit-remaining'', ''abc''), (''ratelimit-reset'', ''30'')]"
  let ?p = "example_response 200 [(''ratelimit-remaining'', ''5''), (''retry-after'', ''9'')]"
  let ?srv = "script [] (1, ?r)"
  let ?w1 = "fresh\<lparr>trace := [Acquire]\<rparr>"
  let ?w2 = "\<lparr>now = 1, lock = True, timers = [], sent = 1, trace = [Acquire, Get]\<rparr>"
  note t = header_reads[where r="?r" and pint=dec_int and attempt=0 and retry_attempts=3 and w=fresh
      and ?w1.0="?w1" and server="?srv" and ?w2.0="?w2" and e=TypeError
      and response_format="''json''" and last_response=None]
  note u = header_reads[where r="?q" and pint=dec_int and s="''abc''" and s'="''30''"]
  note v = header_reads[where r="?p" and pint=dec_int and s="''5''" and i=5]
  have r1: "headers ?r ''ratelimit-remaining'' = None" by (simp add: example_response_def)
  have r2: "headers ?r ''ratelimit-reset'' = None \<and> headers ?r ''retry-after'' = None"
    by (simp add: example_response_def)
  note a1 = t[THEN conjunct1, THEN mp, OF r1]
  note a2 = t[THEN conjunct2, THEN conjunct2, THEN conjunct2, THEN conjunct2, THEN conjunct2,
      THEN conjunct1, THEN mp, OF r2]
  have r3: "(0::int) < 3 \<and> acquire fresh = Some ?w1 \<and> session_get ?srv ?w1 = (?r, ?w2)
        \<and> (rl_remaining_requests dec_int ?r = Inl TypeError
             \<or> (isr (rl_remaining_requests dec_int ?r) \<and> rl_reset_after dec_int ?r = Inl TypeError))"
    using a1 a2
    by (simp add: isr_def acquire_def fresh_def session_get_def script_def run_until_def)
  note a3 = t[THEN conjunct2, THEN conjunct2, THEN conjunct2, THEN conjunct2, THEN conjunct2,
      THEN conjunct2, THEN mp, OF r3, THEN conjunct1]
  have q1: "headers ?q ''ratelimit-remaining'' = Some ''abc'' \<and> dec_int ''abc'' = None"
    by (simp add: run_defs)
  have q2: "headers ?q ''ratelimit-reset'' = Some ''30''" by (simp add: example_response_def)
  note b1 = u[THEN conjunct2, THEN conjunct1, THEN mp, OF q1]
  note b2 = u[THEN conjunct2, THEN conjunct2, THEN conjunct2, THEN conjunct1, THEN mp, OF q2]
  have p1: "headers ?p ''ratelimit-remaining'' = Some ''5'' \<and> dec_int ''5'' = Some 5"
    by (simp add: run_defs)
  have p2: "headers ?p ''ratelimit-reset'' = None" by (simp add: example_response_def)
  note d1 = v[THEN conjunct2, THEN conjunct2, THEN conjunct1, THEN mp, OF p1]
  note d2 = v[THEN conjunct2, THEN conjunct2, THEN conjunct2, THEN conjunct2, THEN conjunct1,
      THEN mp, OF p2]
  have e1: "py_int dec_int (PStr ''30'') = Inr 30" by (simp add: run_defs)
  have e2: "rl_unlock_after dec_int ?p = Inr 9" by (simp add: run_defs)
  from a1 a2 a3 b1 b2 d1 d2 e1 e2 show ?thesis by simp
qed

text \<open>
  An unparsable \<^verbatim>\<open>ratelimit-remaining\<close> is not read as 0: with the value \<^verbatim>\<open>abc\<close> a
  200 response ends in \<^verbatim>\<open>ValueError\<close>, with no release.
\<close>

theorem unparsable_remaining_counterexample:
  "dec_int ''abc'' = None
   \<and> rl_remaining_requests dec_int
        (example_response 200 [(''ratelimit-remaining'', ''abc''), (''ratelimit-reset'', ''30'')])
      = Inl ValueError
   \<and> request dec_int 3
        (script [] (1, example_response 200 [(''ratelimit-remaining'', ''abc''), (''ratelimit-reset'', ''30'')]))
        ''json'' fresh
      = Some (Inl ValueError,
              \<lparr>now = 1, lock = True, timers = [], sent = 1, trace = [Acquire, Get]\<rparr>)"
  by (simp add: run_defs)

section \<open>Retries on 429\<close>

text \<open>
  C8. Where the three header reads succeed, a 429 on an attempt that is not the last
  raises nothing: the gate is released once, with the value of \<^verbatim>\<open>retry-after\<close>, and the
  loop goes on to the next attempt, whose acquire returns that many seconds later provided
  no callback of an earlier release is still pending. When every attempt of a budget of at
  least one sees such a 429, the call raises \<^verbatim>\<open>TooManyRequests\<close> carrying the last
  response, after as many GETs as the budget.
\<close>

theorem rate_limited_retries:
  "(attempt < retry_attempts \<and> attempt \<noteq> retry_attempts - 1
      \<and> acquire w = Some w1 \<and> session_get server w1 = (r, w2) \<and> status r = 429
      \<and> rl_remaining_requests pint r = Inr remaining \<and> rl_reset_after pint r = Inr reset_after
      \<and> rl_unlock_after pint r = Inr unlock_after
    \<longrightarrow> iteration pint retry_attempts server response_format attempt w
          = Some (Next, r, release unlock_after w2)
        \<and> request_loop pint retry_attempts server response_format attempt last_response w
          = request_loop pint retry_attempts server response_format (attempt + 1) (Some r)
              (release unlock_after w2)
        \<and> trace (release unlock_after w2) = trace w @ [Acquire, Get, Release unlock_after]
        \<and> (timers w2 = [] \<longrightarrow>
             map_option now (acquire (release unlock_after w2))
               = Some (max (now w2) (now w2 + unlock_after))))
   \<and> (0 < retry_attempts \<and> gate_live w
       \<and> (\<forall>k. sent w \<le> k \<and> k < sent w + nat retry_attempts \<longrightarrow> rate_limited pint (snd (server k)))
    \<longrightarrow> (\<exists>w'. request pint retry_attempts server response_format w
               = Some (Inl (LibError TooManyRequests
                              [snd (server (sent w + nat retry_attempts - 1))]), w')
             \<and> sent w' = sent w + nat retry_attempts))"
proof (intro conjI impI)
  assume h: "attempt < retry_attempts \<and> attempt \<noteq> retry_attempts - 1
      \<and> acquire w = Some w1 \<and> session_get server w1 = (r, w2) \<and> status r = 429
      \<and> rl_remaining_requests pint r = Inr remaining \<and> rl_reset_after pint r = Inr reset_after
      \<and> rl_unlock_after pint r = Inr unlock_after"
  then have hr: "handle_response pint retry_attempts response_format attempt r w2
                   = (Next, release unlock_after w2)"
    using handle_429[of pint r remaining reset_after unlock_after retry_attempts response_format attempt w2]
    by (simp add: last_attempt_release_def)
  show it: "iteration pint retry_attempts server response_format attempt w
          = Some (Next, r, release unlock_after w2)"
    using h hr iteration_eq[of w w1 server r w2] by simp
  show "request_loop pint retry_attempts server response_format attempt last_response w
          = request_loop pint retry_attempts server response_format (attempt + 1) (Some r)
              (release unlock_after w2)"
    using h loop_next[OF _ it] by blast
  show "trace (release unlock_after w2) = trace w @ [Acquire, Get, Release unlock_after]"
    using h acquire_facts[of w w1] session_get_facts[of server w1 r w2] by (simp add: release_facts)
next
  assume "timers w2 = []"
  then show "map_option now (acquire (release unlock_after w2))
               = Some (max (now w2) (now w2 + unlock_after))"
    by (simp add: acquire_after_release(1))
next
  assume h: "0 < retry_attempts \<and> gate_live w
       \<and> (\<forall>k. sent w \<le> k \<and> k < sent w + nat retry_attempts \<longrightarrow> rate_limited pint (snd (server k)))"
  then obtain m where m: "nat retry_attempts = Suc m"
    by (cases "nat retry_attempts") auto
  then have m': "nat (retry_attempts - 0) = Suc m" by simp
  have all: "\<forall>k. sent w \<le> k \<and> k < sent w + Suc m \<longrightarrow> rate_limited pint (snd (server k))"
    using h m by simp
  from loop_429[OF m' _ all, of response_format None] h m
  show "\<exists>w'. request pint retry_attempts server response_format w
               = Some (Inl (LibError TooManyRequests
                              [snd (server (sent w + nat retry_attempts - 1))]), w')
             \<and> sent w' = sent w + nat retry_attempts"
    by (simp add: request_def)
qed

text \<open>
  The theorem at a transport that always answers 429 with \<^verbatim>\<open>retry-after: 10\<close>, with a
  budget of three.
\<close>

theorem rate_limited_retries_witness:
  "iteration dec_int 3 (script [] (1, example_response 429 [(''retry-after'', ''10'')])) ''json'' 0 fresh
     = Some (Next, example_response 429 [(''retry-after'', ''10'')],
             \<lparr>now = 1, lock = False, timers = [11], sent = 1, trace = [Acquire, Get, Release 10]\<rparr>)
   \<and> map_option now (acquire
         \<lparr>now = 1, lock = False, timers = [11], sent = 1, trace = [Acquire, Get, Release 10]\<rparr>)
       = Some 11
   \<and> (\<exists>w'. request dec_int 3 (script [] (1, example_response 429 [(''retry-after'', ''10'')]))
               ''json'' fresh
             = Some (Inl (LibError TooManyRequests [example_response 429 [(''retry-after'', ''10'')]]), w')
           \<and> sent w' = 3)"
proof -
  let ?r = "example_response 429 [(''retry-after'', ''10'')]"
  let ?srv = "script [] (1, ?r)"
  let ?w1 = "fresh\<lparr>trace := [Acquire]\<rparr>"
  let ?w2 = "\<lparr>now = 1, lock = True, timers = [], sent = 1, trace = [Acquire, Get]\<rparr>"
  note t = rate_limited_retries[where attempt=0 and retry_attempts=3 and w=fresh and ?w1.0="?w1" and server="?srv"
      and r="?r" and ?w2.0="?w2" and pint=dec_int and remaining=0 and reset_after=10
      and unlock_after=10 and response_format="''json''" and last_response=None]
  have p: "rl_remaining_requests dec_int ?r = Inr 0" "rl_reset_after dec_int ?r = Inr 10"
      "rl_unlock_after dec_int ?r = Inr 10" "status ?r = 429"
    by (simp_all add: run_defs)
  have A: "(0::int) < 3 \<and> (0::int) \<noteq> 3 - 1
      \<and> acquire fresh = Some ?w1 \<and> session_get ?srv ?w1 = (?r, ?w2) \<and> status ?r = 429
      \<and> rl_remaining_requests dec_int ?r = Inr 0 \<and> rl_reset_after dec_int ?r = Inr 10
      \<and> rl_unlock_after dec_int ?r = Inr 10"
    using p by (simp add: acquire_def fresh_def session_get_def script_def run_until_def)
  have B: "(0::int) < 3 \<and> gate_live fresh
       \<and> (\<forall>k. sent fresh \<le> k \<and> k < sent fresh + nat 3 \<longrightarrow> rate_limited dec_int (snd (?srv k)))"
    using p by (simp add: gate_live_def fresh_def script_def rate_limited_def isr_def)
  from t[THEN conjunct1, THEN mp, OF A] t[THEN conjunct2, THEN mp, OF B]
  show ?thesis by (simp add: release_def fresh_def script_def)
qed

text \<open>
  After a call that used up three attempts on 500s, a callback for time 8 is still
  pending. The first attempt of a second call sees a 429 with \<^verbatim>\<open>retry-after: 10\<close> at time
  4 and releases with delay 10, yet the next acquire returns at time 8.
\<close>

theorem rate_limited_reopen_counterexample:
  "map_option fst (and_then (world_after (request dec_int 3
       (script [(1, example_response 500 [(''ratelimit-reset'', ''7'')]),
                (1, example_response 500 [(''ratelimit-reset'', ''7'')]),
                (1, example_response 500 [(''ratelimit-reset'', ''7'')])]
          (1, example_response 429 [(''retry-after'', ''10'')]))
        ''json'' fresh))
      (iteration dec_int 3
       (script [(1, example_response 500 [(''ratelimit-reset'', ''7'')]),
                (1, example_response 500 [(''ratelimit-reset'', ''7'')]),
                (1, example_response 500 [(''ratelimit-reset'', ''7'')])]
          (1, example_response 429 [(''retry-after'', ''10'')]))
        ''json'' 0))
    = Some Next
  \<and> map_option (snd \<circ> snd) (and_then (world_after (request dec_int 3
       (script [(1, example_response 500 [(''ratelimit-reset'', ''7'')]),
                (1, example_response 500 [(''ratelimit-reset'', ''7'')]),
                (1, example_response 500 [(''ratelimit-reset'', ''7'')])]
          (1, example_response 429 [(''retry-after'', ''10'')]))
        ''json'' fresh))
      (iteration dec_int 3
       (script [(1, example_response 500 [(''ratelimit-reset'', ''7'')]),
                (1, example_response 500 [(''ratelimit-reset'', ''7'')]),
                (1, example_response 500 [(''ratelimit-reset'', ''7'')])]
          (1, example_response 429 [(''retry-after'', ''10'')]))
        ''json'' 0))
    = Some \<lparr>now = 4, lock = False, timers = [8, 14], sent = 4,
         trace = [Acquire, Get, Acquire, Get, Acquire, Get, Release 5, Release 0,
                  Acquire, Get, Release 10]\<rparr>
  \<and> map_option now (acquire \<lparr>now = 4, lock = False, timers = [8, 14], sent = 4,
         trace = [Acquire, Get, Acquire, Get, Acquire, Get, Release 5, Release 0,
                  Acquire, Get, Release 10]\<rparr>) = Some 8"
  by (simp add: run_defs)

section \<open>What the server error carries\<close>

text \<open>
  C9. The \<^verbatim>\<open>HypixelServerError\<close> raised when the only attempt sees status 500 is
  constructed without arguments: it does not carry the response.
\<close>

theorem server_error_carries_no_response:
  "outcome (request dec_int 1
      (script [] (1, example_response 500
         [(''ratelimit-remaining'', ''5''), (''ratelimit-reset'', ''7'')]))
      ''json'' fresh)
     = Some (Inl (LibError HypixelServerError []))"
  by (simp add: run_defs)

section \<open>No attempts at all\<close>

text \<open>
  C10. With \<^verbatim>\<open>retry_attempts\<close> at most 0 the loop body never runs: no GET is sent,
  the code after the loop runs with \<^verbatim>\<open>status\<close> still \<^verbatim>\<open>None\<close>, and the call
  ends in a \<^verbatim>\<open>TypeError\<close> (after one \<^verbatim>\<open>release()\<close>), not in an error of the library.
\<close>

theorem no_attempts_type_error:
  "retry_attempts \<le> 0 \<Longrightarrow>
     request pint retry_attempts server response_format w = Some (after_loop None w)
     \<and> after_loop None w = (Inl TypeError, release 0 w)
     \<and> sent (release 0 w) = sent w
     \<and> trace (release 0 w) = trace w @ [Release 0]"
  by (simp add: request_def after_loop_def release_def)

theorem no_attempts_type_error_witness:
  "(0::int) \<le> 0
   \<and> request dec_int 0 (script [] (1, example_response 200 [])) ''json'' fresh
       = Some (after_loop None fresh)
   \<and> after_loop None fresh = (Inl TypeError, release 0 fresh)
   \<and> sent (release 0 fresh) = sent fresh
   \<and> trace (release 0 fresh) = trace fresh @ [Release 0]"
  using no_attempts_type_error [of 0 dec_int "script [] (1, example_response 200 [])" "''json''" fresh]
  by simp

end
